theory Spec2Isabelle
  imports Main "HOL-Library.Sublist" "HOL-Library.Char_ord" "HOL-Library.List_Lexorder"
begin

section \<open>Data model (fixture.go)\<close>

text \<open>
  A document is the struct \<open>document\<close>: the identifier taken from the \<open>_id\<close> field
  (empty when the store is to assign one) and the body, a Go map from field name to an
  arbitrary decoded value. The type of decoded values is a parameter \<open>'v\<close>.
\<close>

record 'v document =
  ID :: string
  Body :: "string \<rightharpoonup> 'v"

text \<open>
  An index fixture is the struct \<open>indexFixture\<close>. A \<open>json.RawMessage\<close> that may be nil
  is an optional byte string.
\<close>

record 'v indexFixture =
  name :: string
  mapping :: "string option"
  settings :: "string option"
  documents :: "'v document list"

section \<open>Errors\<close>

text \<open>
  Every \<open>fmt.Errorf\<close> and \<open>errors.New\<close> of the source is a constructor that keeps the
  values its format string interpolates; \<open>LibError\<close> is an error produced by a library
  outside the repository, known by its message only; \<open>PathError\<close> is the error of a failed
  file-system call (operation, path, cause); \<open>Joined\<close> is \<open>errors.Join\<close>.
\<close>

datatype error =
    LibError string
  | PathError string string string
  | ElasticsearchError string string
  | BuildingRequestBody error
  | CreatingIndex string error
  | DeletingIndex string error
  | RefreshingIndex string error
  | CreatingBulkIndexer string error
  | MarshalingDocument error
  | AddingDocument error
  | ClosingBulkIndexer string error
  | BulkInsertErrors string string
  | BulkInsertFailed string nat
  | Testfixtures error
  | CleaningUp error
  | Joined "error list"
  | ReadingFixturesDirectory string error
  | ParsingIndex string error
  | NoIndexDirectories string
  | ReadingNamedFile string error
  | InvalidJSON string
  | ReadingDirectory string error
  | ParsingDocumentFile string error
  | ReadingFile error
  | UnmarshalingYAML error

section \<open>Library functions the source calls\<close>

text \<open>
  The functions of \<open>encoding/json\<close>, \<open>gopkg.in/yaml.v3\<close> and \<open>fmt\<close> that the source
  applies to data are parameters: \<open>json.Marshal\<close> of a document body and of the
  \<open>map[string]json.RawMessage\<close> of an index creation request, \<open>json.Valid\<close>,
  \<open>yaml.Unmarshal\<close> into \<open>[]map[string]interface{}\<close>, \<open>fmt.Sprintf("%v", _)\<close>,
  \<open>filepath.Join\<close> of a directory and an entry name, and \<open>strconv.Quote\<close>, the
  \<open>%q\<close> verb.
\<close>

record 'v extern =
  json_Marshal_body :: "(string \<rightharpoonup> 'v) \<Rightarrow> string + string"
  json_Marshal_raw :: "(string \<rightharpoonup> string) \<Rightarrow> string + string"
  json_Valid :: "string \<Rightarrow> bool"
  yaml_Unmarshal :: "string \<Rightarrow> string + (string \<rightharpoonup> 'v) list"
  Sprintf_v :: "'v \<Rightarrow> string"
  filepath_Join :: "string \<Rightarrow> string \<Rightarrow> string"
  strconv_Quote :: "string \<Rightarrow> string"

text \<open>\<open>strings.Join\<close>, \<open>strings.HasPrefix\<close> and \<open>strings.HasSuffix\<close>.\<close>

fun strings_Join :: "string list \<Rightarrow> string \<Rightarrow> string" where
  "strings_Join [] sep = []"
| "strings_Join [x] sep = x"
| "strings_Join (x # y # ys) sep = x @ sep @ strings_Join (y # ys) sep"

definition HasPrefix :: "string \<Rightarrow> string \<Rightarrow> bool" where
  "HasPrefix s pre = (length s \<ge> length pre \<and> take (length pre) s = pre)"

definition HasSuffix :: "string \<Rightarrow> string \<Rightarrow> bool" where
  "HasSuffix s suf = (length s \<ge> length suf \<and> drop (length s - length suf) s = suf)"

text \<open>Decimal printing of an integer, the \<open>%d\<close> verb.\<close>

definition digit :: "nat \<Rightarrow> char" where
  "digit d = ''0123456789'' ! d"

fun dec :: "nat \<Rightarrow> string" where
  "dec n = (if n < 10 then [digit n] else dec (n div 10) @ [digit (n mod 10)])"

definition Itoa :: "int \<Rightarrow> string" where
  "Itoa i = (if i < 0 then CHR ''-'' # dec (nat (- i)) else dec (nat i))"

section \<open>The document store gateway\<close>

text \<open>
  One item of a batched write, the fields of \<open>esutil.BulkIndexerItem\<close> that the source
  sets; an empty \<open>DocumentID\<close> is the zero value, which leaves the identifier to the store.
\<close>

record item =
  Action :: string
  DocumentID :: string
  ItemBody :: string

text \<open>
  An invocation of an item's \<open>OnFailure\<close> callback: with an error, or with the response
  item's status, error type and error reason.
\<close>

datatype failure =
    FailedWith string
  | FailedItem int string string

text \<open>The response of an index operation: status code, status line and body.\<close>

record response =
  StatusCode :: int
  Status :: string
  ResBody :: string

definition IsError :: "response \<Rightarrow> bool" where
  "IsError res = (StatusCode res > 299)"

text \<open>
  The client, over a store state \<open>'w\<close>. Each operation answers from the current state
  and returns the next one. An index operation returns a transport error or a response;
  creating an indexer may return an error; adding an item and closing the indexer may
  return an error, and report the \<open>OnFailure\<close> callbacks invoked meanwhile, in order.
\<close>

record 'w client =
  Indices_Delete :: "string \<Rightarrow> bool \<Rightarrow> 'w \<Rightarrow> (string + response) \<times> 'w"
  Indices_Create :: "string \<Rightarrow> string option \<Rightarrow> 'w \<Rightarrow> (string + response) \<times> 'w"
  Indices_Refresh :: "string \<Rightarrow> 'w \<Rightarrow> (string + response) \<times> 'w"
  NewBulkIndexer :: "string \<Rightarrow> 'w \<Rightarrow> string option \<times> 'w"
  Indexer_Add :: "string \<Rightarrow> item \<Rightarrow> 'w \<Rightarrow> (failure list \<times> string option) \<times> 'w"
  Indexer_Close :: "string \<Rightarrow> 'w \<Rightarrow> (failure list \<times> string option) \<times> 'w"
  Indexer_Stats :: "string \<Rightarrow> 'w \<Rightarrow> nat"

text \<open>The calls made on the client, recorded in the order they are made.\<close>

datatype call =
    DeleteCall string bool
  | CreateCall string "string option"
  | RefreshCall string
  | NewIndexerCall string
  | AddCall string item
  | CloseCall string
  | StatsCall string

record 'w state =
  calls :: "call list"
  world :: 'w

definition issue :: "call \<Rightarrow> 'w \<Rightarrow> 'w state \<Rightarrow> 'w state" where
  "issue c w s = \<lparr>calls = calls s @ [c], world = w\<rparr>"

section \<open>Index operations (index.go)\<close>

definition checkResponse :: "response \<Rightarrow> error option" where
  "checkResponse res =
     (if \<not> IsError res then None
      else Some (ElasticsearchError (Status res) (ResBody res)))"

definition buildCreateIndexBody :: "'v extern \<Rightarrow> string option \<Rightarrow> string option \<Rightarrow> error + string option" where
  "buildCreateIndexBody x mapping' settings' =
     (if mapping' = None \<and> settings' = None then Inr None
      else
        let body = Map.empty;
            body = (case mapping' of Some m \<Rightarrow> body(''mappings'' \<mapsto> m) | None \<Rightarrow> body);
            body = (case settings' of Some t \<Rightarrow> body(''settings'' \<mapsto> t) | None \<Rightarrow> body)
        in (case json_Marshal_raw x body of
              Inl err \<Rightarrow> Inl (LibError err)
            | Inr bytes \<Rightarrow> Inr (Some bytes)))"

definition createIndex :: "'v extern \<Rightarrow> 'w client \<Rightarrow> string \<Rightarrow> string option \<Rightarrow> string option \<Rightarrow> 'w state \<Rightarrow> error option \<times> 'w state" where
  "createIndex x cl name' mapping' settings' s =
     (case buildCreateIndexBody x mapping' settings' of
        Inl err \<Rightarrow> (Some (BuildingRequestBody err), s)
      | Inr body \<Rightarrow>
          (case Indices_Create cl name' body (world s) of
             (Inl err, w) \<Rightarrow>
               (Some (CreatingIndex name' (LibError err)), issue (CreateCall name' body) w s)
           | (Inr res, w) \<Rightarrow>
               (case checkResponse res of
                  Some err \<Rightarrow> (Some (CreatingIndex name' err), issue (CreateCall name' body) w s)
                | None \<Rightarrow> (None, issue (CreateCall name' body) w s))))"

definition deleteIndex :: "'w client \<Rightarrow> string \<Rightarrow> 'w state \<Rightarrow> error option \<times> 'w state" where
  "deleteIndex cl name' s =
     (case Indices_Delete cl name' True (world s) of
        (Inl err, w) \<Rightarrow>
          (Some (DeletingIndex name' (LibError err)), issue (DeleteCall name' True) w s)
      | (Inr res, w) \<Rightarrow>
          (case checkResponse res of
             Some err \<Rightarrow> (Some (DeletingIndex name' err), issue (DeleteCall name' True) w s)
           | None \<Rightarrow> (None, issue (DeleteCall name' True) w s)))"

definition refreshIndex :: "'w client \<Rightarrow> string \<Rightarrow> 'w state \<Rightarrow> error option \<times> 'w state" where
  "refreshIndex cl name' s =
     (case Indices_Refresh cl name' (world s) of
        (Inl err, w) \<Rightarrow>
          (Some (RefreshingIndex name' (LibError err)), issue (RefreshCall name') w s)
      | (Inr res, w) \<Rightarrow>
          (case checkResponse res of
             Some err \<Rightarrow> (Some (RefreshingIndex name' err), issue (RefreshCall name') w s)
           | None \<Rightarrow> (None, issue (RefreshCall name') w s)))"

text \<open>The message an \<open>OnFailure\<close> callback appends to \<open>bulkErrors\<close>.\<close>

fun failureMessage :: "failure \<Rightarrow> string" where
  "failureMessage (FailedWith err) = err"
| "failureMessage (FailedItem status type reason) =
     ''['' @ Itoa status @ ''] '' @ type @ '': '' @ reason"

text \<open>The item built for one document, from its marshalled body.\<close>

definition bulkItem :: "'v document \<Rightarrow> string \<Rightarrow> item" where
  "bulkItem doc body =
     (let it = \<lparr>Action = ''index'', DocumentID = [], ItemBody = body\<rparr>
      in if ID doc \<noteq> [] then it\<lparr>DocumentID := ID doc\<rparr> else it)"

text \<open>
  The loop of \<open>bulkInsertDocuments\<close> over the documents, with \<open>bulkErrors\<close> as
  accumulator: marshal the body, build the item, add it; a marshalling error or an error
  of \<open>Add\<close> returns at once.
\<close>

fun addDocuments :: "'v extern \<Rightarrow> 'w client \<Rightarrow> string \<Rightarrow> 'v document list \<Rightarrow> string list \<Rightarrow> 'w state \<Rightarrow> (error + string list) \<times> 'w state" where
  "addDocuments x cl indexName [] bulkErrors s = (Inr bulkErrors, s)"
| "addDocuments x cl indexName (doc # docs) bulkErrors s =
     (case json_Marshal_body x (Body doc) of
        Inl err \<Rightarrow> (Inl (MarshalingDocument (LibError err)), s)
      | Inr body \<Rightarrow>
          (case Indexer_Add cl indexName (bulkItem doc body) (world s) of
             ((fails, Some err), w) \<Rightarrow>
               (Inl (AddingDocument (LibError err)), issue (AddCall indexName (bulkItem doc body)) w s)
           | ((fails, None), w) \<Rightarrow>
               addDocuments x cl indexName docs (bulkErrors @ map failureMessage fails)
                 (issue (AddCall indexName (bulkItem doc body)) w s)))"

definition bulkInsertDocuments :: "'v extern \<Rightarrow> 'w client \<Rightarrow> string \<Rightarrow> 'v document list \<Rightarrow> 'w state \<Rightarrow> error option \<times> 'w state" where
  "bulkInsertDocuments x cl indexName docs s =
     (if length docs = 0 then (None, s)
      else
        (case NewBulkIndexer cl indexName (world s) of
           (Some err, w) \<Rightarrow>
             (Some (CreatingBulkIndexer indexName (LibError err)), issue (NewIndexerCall indexName) w s)
         | (None, w) \<Rightarrow>
             (case addDocuments x cl indexName docs [] (issue (NewIndexerCall indexName) w s) of
                (Inl err, s1) \<Rightarrow> (Some err, s1)
              | (Inr added, s1) \<Rightarrow>
                  (case Indexer_Close cl indexName (world s1) of
                     ((fails, Some err), w2) \<Rightarrow>
                       (Some (ClosingBulkIndexer indexName (LibError err)), issue (CloseCall indexName) w2 s1)
                   | ((fails, None), w2) \<Rightarrow>
                       (let bulkErrors = added @ map failureMessage fails;
                            s2 = issue (CloseCall indexName) w2 s1
                        in if length bulkErrors > 0
                           then (Some (BulkInsertErrors indexName (strings_Join bulkErrors ''; '')), s2)
                           else
                             (let NumFailed = Indexer_Stats cl indexName (world s2);
                                  s3 = issue (StatsCall indexName) (world s2) s2
                              in if NumFailed > 0
                                 then (Some (BulkInsertFailed indexName NumFailed), s3)
                                 else (None, s3)))))))"

section \<open>Loader (testfixtures.go)\<close>


text \<open>
  \<open>Clean\<close>: the loop over the fixtures with \<open>errs\<close> as accumulator, then the decision
  on its length.
\<close>

fun cleanLoop :: "'w client \<Rightarrow> 'v indexFixture list \<Rightarrow> error list \<Rightarrow> 'w state \<Rightarrow> error list \<times> 'w state" where
  "cleanLoop cl [] errs s = (errs, s)"
| "cleanLoop cl (f # fs) errs s =
     (case deleteIndex cl (name f) s of
        (Some err, s1) \<Rightarrow> cleanLoop cl fs (errs @ [err]) s1
      | (None, s1) \<Rightarrow> cleanLoop cl fs errs s1)"

definition Clean :: "'w client \<Rightarrow> 'v indexFixture list \<Rightarrow> 'w state \<Rightarrow> error option \<times> 'w state" where
  "Clean cl fs s =
     (case cleanLoop cl fs [] s of
        (errs, s1) \<Rightarrow>
          (if length errs > 0 then (Some (CleaningUp (Joined errs)), s1) else (None, s1)))"

section \<open>The file system\<close>

text \<open>
  What a path holds: a regular file with its content, or a directory with its entries, each
  a name and what the name holds, in no particular order.
\<close>

datatype node = File string | Dir "(string \<times> node) list"

fun IsDir :: "node \<Rightarrow> bool" where
  "IsDir (Dir es) = True"
| "IsDir (File data) = False"

text \<open>What a directory holds under a name.\<close>

fun lookup :: "node \<Rightarrow> string \<Rightarrow> node option" where
  "lookup (Dir es) nm = map_of es nm"
| "lookup (File data) nm = None"

text \<open>
  \<open>os.ReadDir\<close> returns the entries of a directory sorted by file name (byte-wise, which
  is the order of \<open>string\<close> here); \<open>os.ReadFile\<close> returns the content of a regular file.
  Both fail on a path that holds nothing, and on the wrong kind of node.
\<close>

definition os_ReadDir :: "string \<Rightarrow> node option \<Rightarrow> error + (string \<times> node) list" where
  "os_ReadDir path nd =
     (case nd of
        None \<Rightarrow> Inl (PathError ''open'' path ''no such file or directory'')
      | Some (File data) \<Rightarrow> Inl (PathError ''readdirent'' path ''not a directory'')
      | Some (Dir es) \<Rightarrow> Inr (sort_key fst es))"

definition os_ReadFile :: "string \<Rightarrow> node option \<Rightarrow> error + string" where
  "os_ReadFile path nd =
     (case nd of
        None \<Rightarrow> Inl (PathError ''open'' path ''no such file or directory'')
      | Some (Dir es) \<Rightarrow> Inl (PathError ''read'' path ''is a directory'')
      | Some (File data) \<Rightarrow> Inr data)"

fun os_IsNotExist :: "error \<Rightarrow> bool" where
  "os_IsNotExist (PathError op path cause) = (cause = ''no such file or directory'')"
| "os_IsNotExist err = False"

section \<open>Fixture parser (parser.go)\<close>

definition mappingFile :: string where
  "mappingFile = ''_mapping.json''"

definition settingsFile :: string where
  "settingsFile = ''_settings.json''"

text \<open>
  The body of the loop of \<open>parseYAMLDocuments\<close>: the document of one decoded record.
\<close>

definition toDocument :: "'v extern \<Rightarrow> (string \<rightharpoonup> 'v) \<Rightarrow> 'v document" where
  "toDocument x raw =
     (case raw ''_id'' of
        Some id' \<Rightarrow> \<lparr>ID = Sprintf_v x id', Body = raw(''_id'' := None)\<rparr>
      | None \<Rightarrow> \<lparr>ID = [], Body = raw\<rparr>)"

definition parseYAMLDocuments :: "'v extern \<Rightarrow> string \<Rightarrow> node option \<Rightarrow> error + 'v document list" where
  "parseYAMLDocuments x path nd =
     (case os_ReadFile path nd of
        Inl err \<Rightarrow> Inl (ReadingFile err)
      | Inr data \<Rightarrow>
          (case yaml_Unmarshal x data of
             Inl err \<Rightarrow> Inl (UnmarshalingYAML (LibError err))
           | Inr rawDocs \<Rightarrow> Inr (map (toDocument x) rawDocs)))"

text \<open>The loop of \<open>parseDocumentFiles\<close> over the entries, with \<open>docs\<close> as accumulator.\<close>

fun documentLoop :: "'v extern \<Rightarrow> string \<Rightarrow> (string \<times> node) list \<Rightarrow> 'v document list \<Rightarrow> error + 'v document list" where
  "documentLoop x dir [] docs = Inr docs"
| "documentLoop x dir ((name', entry) # entries) docs =
     (if IsDir entry then documentLoop x dir entries docs
      else if \<not> HasSuffix name' ''.yml'' \<and> \<not> HasSuffix name' ''.yaml''
        then documentLoop x dir entries docs
      else if HasPrefix name' ''_'' then documentLoop x dir entries docs
      else
        (case parseYAMLDocuments x (filepath_Join x dir name') (Some entry) of
           Inl err \<Rightarrow> Inl (ParsingDocumentFile name' err)
         | Inr fileDocs \<Rightarrow> documentLoop x dir entries (docs @ fileDocs)))"

definition parseDocumentFiles :: "'v extern \<Rightarrow> string \<Rightarrow> node \<Rightarrow> error + 'v document list" where
  "parseDocumentFiles x dir nd =
     (case os_ReadDir dir (Some nd) of
        Inl err \<Rightarrow> Inl (ReadingDirectory dir err)
      | Inr entries \<Rightarrow> documentLoop x dir entries [])"

definition readJSONFile :: "'v extern \<Rightarrow> string \<Rightarrow> node option \<Rightarrow> error + string" where
  "readJSONFile x path nd =
     (case os_ReadFile path nd of
        Inl err \<Rightarrow> Inl err
      | Inr data \<Rightarrow> (if \<not> json_Valid x data then Inl (InvalidJSON path) else Inr data))"

text \<open>
  What \<open>parseIndexDir\<close> does with the result of \<open>readJSONFile\<close>, for either reserved
  file: an error other than a missing file is returned, a missing file leaves the field nil.
\<close>

definition optionalFile :: "string \<Rightarrow> error + string \<Rightarrow> error + string option" where
  "optionalFile file r =
     (case r of
        Inl err \<Rightarrow> (if \<not> os_IsNotExist err then Inl (ReadingNamedFile file err) else Inr None)
      | Inr data \<Rightarrow> Inr (Some data))"

definition parseIndexDir :: "'v extern \<Rightarrow> string \<Rightarrow> node \<Rightarrow> string \<Rightarrow> error + 'v indexFixture" where
  "parseIndexDir x dir nd name' =
     (case optionalFile mappingFile
             (readJSONFile x (filepath_Join x dir mappingFile) (lookup nd mappingFile)) of
        Inl err \<Rightarrow> Inl err
      | Inr mapping' \<Rightarrow>
          (case optionalFile settingsFile
                  (readJSONFile x (filepath_Join x dir settingsFile) (lookup nd settingsFile)) of
             Inl err \<Rightarrow> Inl err
           | Inr settings' \<Rightarrow>
               (case parseDocumentFiles x dir nd of
                  Inl err \<Rightarrow> Inl err
                | Inr docs \<Rightarrow>
                    Inr \<lparr>name = name', mapping = mapping', settings = settings',
                         documents = docs\<rparr>)))"



section \<open>Error messages\<close>



section \<open>Notions the properties are stated with\<close>

subsection \<open>Phases of reconciliation\<close>




subsection \<open>Teardown\<close>

text \<open>
  Requesting the deletion of every fixture in order, whatever each request returns: the
  outcomes in order and the final state.
\<close>

fun deleteEach :: "'w client \<Rightarrow> 'v indexFixture list \<Rightarrow> 'w state \<Rightarrow> error option list \<times> 'w state" where
  "deleteEach cl [] s = ([], s)"
| "deleteEach cl (f # fs) s =
     (case deleteIndex cl (name f) s of
        (r, s1) \<Rightarrow> (case deleteEach cl fs s1 of (rs, s2) \<Rightarrow> (r # rs, s2)))"

definition failures_of :: "error option list \<Rightarrow> error list" where
  "failures_of rs = concat (map (\<lambda>r. case r of Some e \<Rightarrow> [e] | None \<Rightarrow> []) rs)"

subsection \<open>Batched write\<close>

text \<open>The marshalled body of a document, empty where marshalling fails.\<close>

definition marshalled :: "'v extern \<Rightarrow> 'v document \<Rightarrow> string" where
  "marshalled x doc = (case json_Marshal_body x (Body doc) of Inr body \<Rightarrow> body | Inl err \<Rightarrow> [])"

text \<open>The items of the \<open>Add\<close> calls among a list of calls, in order.\<close>

fun added_items :: "call list \<Rightarrow> item list" where
  "added_items [] = []"
| "added_items (AddCall n it # cs) = it # added_items cs"
| "added_items (c # cs) = added_items cs"


subsection \<open>Record sources\<close>

text \<open>
  A record source: an entry that is not a directory, whose name ends in \<open>.yml\<close> or
  \<open>.yaml\<close> and does not start with \<open>_\<close>.
\<close>

definition is_record_source :: "string \<times> node \<Rightarrow> bool" where
  "is_record_source e =
     (\<not> IsDir (snd e)
      \<and> (HasSuffix (fst e) ''.yml'' \<or> HasSuffix (fst e) ''.yaml'')
      \<and> \<not> HasPrefix (fst e) ''_'')"

text \<open>The records of one record source, empty where it does not parse.\<close>

definition records_of :: "'v extern \<Rightarrow> string \<Rightarrow> string \<times> node \<Rightarrow> 'v document list" where
  "records_of x dir e =
     (case parseYAMLDocuments x (filepath_Join x dir (fst e)) (Some (snd e)) of
        Inr docs \<Rightarrow> docs
      | Inl err \<Rightarrow> [])"

definition parses :: "'v extern \<Rightarrow> string \<Rightarrow> string \<times> node \<Rightarrow> bool" where
  "parses x dir e =
     (case parseYAMLDocuments x (filepath_Join x dir (fst e)) (Some (snd e)) of
        Inr docs \<Rightarrow> True
      | Inl err \<Rightarrow> False)"

text \<open>The immediate subdirectories of a directory, as \<open>os.ReadDir\<close> lists them.\<close>

definition subdirs :: "(string \<times> node) list \<Rightarrow> (string \<times> node) list" where
  "subdirs es = filter (\<lambda>e. IsDir (snd e)) (sort_key fst es)"

subsection \<open>Index creation request\<close>

text \<open>
  The object that carries the schema under the key \<open>mappings\<close> and the settings under the
  key \<open>settings\<close>, each only when present, and nothing else.
\<close>

definition request_object :: "string option \<Rightarrow> string option \<Rightarrow> (string \<rightharpoonup> string)" where
  "request_object m t = (\<lambda>k. if k = ''mappings'' then m else if k = ''settings'' then t else None)"

section \<open>Example inputs\<close>

text \<open>
  A small type of decoded values, and stand-ins for the library functions that know a
  handful of inputs: enough to run the functions above on concrete fixtures.
\<close>

datatype scalar = Str string | Num int | NaN

definition yaml_examples :: "(string \<times> (string + (string \<rightharpoonup> scalar) list)) list" where
  "yaml_examples =
     [(''users'', Inr [[''_id'' \<mapsto> Num 1, ''name'' \<mapsto> Str ''Alice''],
                       [''_id'' \<mapsto> Str ''2'', ''name'' \<mapsto> Str ''Bob'']]),
      (''electronics'', Inr [[''_id'' \<mapsto> Str ''p1''], [''title'' \<mapsto> Str ''Radio'']]),
      (''books'', Inr [[''_id'' \<mapsto> Str ''p3'', ''title'' \<mapsto> Str ''Go Programming'']]),
      (''not: [valid: yaml'', Inl ''yaml: did not find expected node content'')]"

definition x0 :: "scalar extern" where
  "x0 = \<lparr>
     json_Marshal_body = (\<lambda>m. if m ''price'' = Some NaN then Inl ''json: unsupported value: NaN''
                               else Inr (case m ''name'' of Some (Str s) \<Rightarrow> ''name='' @ s | _ \<Rightarrow> ''{}'')),
     json_Marshal_raw = (\<lambda>m. Inr (''{''
        @ strings_Join ((case m ''mappings'' of Some v \<Rightarrow> [''mappings:'' @ v] | None \<Rightarrow> [])
                        @ (case m ''settings'' of Some v \<Rightarrow> [''settings:'' @ v] | None \<Rightarrow> [])) '',''
        @ ''}'')),
     json_Valid = (\<lambda>data. data \<noteq> ''{invalid}''),
     yaml_Unmarshal = (\<lambda>data. case map_of yaml_examples data of
                                  Some r \<Rightarrow> r | None \<Rightarrow> Inl ''yaml: unmarshal errors''),
     Sprintf_v = (\<lambda>v. case v of Str s \<Rightarrow> s | Num i \<Rightarrow> Itoa i | NaN \<Rightarrow> ''NaN''),
     filepath_Join = (\<lambda>d n. d @ ''/'' @ n),
     strconv_Quote = (\<lambda>s. CHR 0x22 # s @ [CHR 0x22])\<rparr>"

definition ok :: response where
  "ok = \<lparr>StatusCode = 200, Status = ''200 OK'', ResBody = ''{}''\<rparr>"

definition bad_request :: response where
  "bad_request = \<lparr>StatusCode = 400, Status = ''400 Bad Request'', ResBody = ''mapper_parsing_exception''\<rparr>"

text \<open>
  A store whose state is the buffer of its indexer. It refuses connections for the index
  \<open>locked\<close>, rejects the creation of \<open>products\<close>, and on closing the indexer reports a
  failure for every buffered item with identifier \<open>bad\<close>.
\<close>

definition cl0 :: "item list client" where
  "cl0 = \<lparr>
     Indices_Delete = (\<lambda>n b w. (if n = ''locked'' then Inl ''connection refused'' else Inr ok, w)),
     Indices_Create = (\<lambda>n body w. (if n = ''products'' then Inr bad_request else Inr ok, w)),
     Indices_Refresh = (\<lambda>n w. (Inr ok, w)),
     NewBulkIndexer = (\<lambda>n w. (None, [])),
     Indexer_Add = (\<lambda>n it w. (([], None), w @ [it])),
     Indexer_Close = (\<lambda>n w.
        ((map (\<lambda>it. FailedItem 400 ''mapper_parsing_exception'' (''failed to parse '' @ DocumentID it))
              (filter (\<lambda>it. take 3 (DocumentID it) = ''bad'') w), None), [])),
     Indexer_Stats = (\<lambda>n w. 0)\<rparr>"

definition s0 :: "item list state" where
  "s0 = \<lparr>calls = [], world = []\<rparr>"

definition alice :: "scalar document" where
  "alice = \<lparr>ID = ''1'', Body = [''name'' \<mapsto> Str ''Alice'']\<rparr>"

definition anonymous :: "scalar document" where
  "anonymous = \<lparr>ID = [], Body = [''name'' \<mapsto> Str ''Bob'']\<rparr>"

definition unpriced :: "scalar document" where
  "unpriced = \<lparr>ID = ''3'', Body = [''price'' \<mapsto> NaN]\<rparr>"

definition bad1 :: "scalar document" where
  "bad1 = \<lparr>ID = ''bad1'', Body = [''name'' \<mapsto> Str ''Carol'']\<rparr>"

definition bad2 :: "scalar document" where
  "bad2 = \<lparr>ID = ''bad2'', Body = Map.empty\<rparr>"

definition users :: "scalar indexFixture" where
  "users = \<lparr>name = ''users'', mapping = Some ''{m}'', settings = Some ''{s}'',
            documents = [alice, anonymous]\<rparr>"

definition products :: "scalar indexFixture" where
  "products = \<lparr>name = ''products'', mapping = Some ''{m}'', settings = None, documents = []\<rparr>"

definition locked :: "scalar indexFixture" where
  "locked = \<lparr>name = ''locked'', mapping = None, settings = None, documents = []\<rparr>"

definition orders :: "scalar indexFixture" where
  "orders = \<lparr>name = ''orders'', mapping = None, settings = None, documents = []\<rparr>"

text \<open>
  A fixture tree: entries out of order, a file beside the collections, a nested
  directory and reserved files inside a collection.
\<close>

definition users_dir :: node where
  "users_dir = Dir [(''documents.yml'', File ''users''), (''_mapping.json'', File ''{m}''),
                    (''_settings.json'', File ''{s}'')]"

definition products_dir :: node where
  "products_dir = Dir [(''notes.txt'', File ''books''), (''002_books.yaml'', File ''books''),
                       (''_hidden.yml'', File ''books''), (''archive.yml'', Dir [(''old.yml'', File ''books'')]),
                       (''001_electronics.yml'', File ''electronics''), (''_mapping.json'', File ''{m}'')]"

definition tree :: node where
  "tree = Dir [(''users'', users_dir), (''README.md'', File ''fixtures''), (''products'', products_dir)]"

definition broken_tree :: node where
  "broken_tree = Dir [(''users'', Dir [(''documents.yml'', File ''not: [valid: yaml'')])]"

section \<open>The calls each operation makes\<close>

lemma deleteIndex_calls:
  "deleteIndex cl n s = (r, s') \<Longrightarrow> calls s' = calls s @ [DeleteCall n True]"
  by (auto simp: deleteIndex_def issue_def split: prod.splits sum.splits option.splits)







section \<open>Load\<close>






lemmas example_defs =
  x0_def cl0_def s0_def users_def products_def orders_def locked_def alice_def anonymous_def
  unpriced_def bad1_def bad2_def ok_def bad_request_def

lemmas operation_defs =
  deleteIndex_def createIndex_def bulkInsertDocuments_def refreshIndex_def checkResponse_def
  IsError_def buildCreateIndexBody_def issue_def bulkItem_def


section \<open>Clean\<close>

lemma cleanLoop_deleteEach:
  "cleanLoop cl fs errs s =
     (errs @ failures_of (fst (deleteEach cl fs s)), snd (deleteEach cl fs s))"
proof (induction fs arbitrary: errs s)
  case Nil
  show ?case by (simp add: failures_of_def)
next
  case (Cons f fs)
  obtain r s1 where d: "deleteIndex cl (name f) s = (r, s1)" by (cases "deleteIndex cl (name f) s")
  show ?case
    by (cases r) (simp_all add: d Cons.IH failures_of_def split_beta)
qed

lemma deleteEach_length: "length (fst (deleteEach cl fs s)) = length fs"
  by (induction fs arbitrary: s) (simp_all add: split_beta)

lemma deleteEach_calls:
  "calls (snd (deleteEach cl fs s)) = calls s @ map (\<lambda>f. DeleteCall (name f) True) fs"
proof (induction fs arbitrary: s)
  case Nil
  show ?case by simp
next
  case (Cons f fs)
  obtain r s1 where d: "deleteIndex cl (name f) s = (r, s1)" by (cases "deleteIndex cl (name f) s")
  from deleteIndex_calls[OF d] Cons.IH[of s1] show ?case
    by (simp add: d split_beta)
qed

lemma failures_of_Nil: "failures_of rs = [] \<longleftrightarrow> (\<forall>r\<in>set rs. r = None)"
  by (induction rs) (auto simp: failures_of_def split: option.splits)

text \<open>
  Claim C4. \<open>Clean\<close> requests the deletion of every fixture in the order of the set, also
  after an earlier deletion failed: the calls it makes are one deletion per fixture, in
  order, whatever the outcomes. It returns success if and only if no deletion failed, and
  otherwise one error that joins the errors of all the deletions that failed, in order.
\<close>

theorem Clean_attempts_every_deletion_and_aggregates:
  "Clean cl fs s =
     (if failures_of (fst (deleteEach cl fs s)) = [] then None
      else Some (CleaningUp (Joined (failures_of (fst (deleteEach cl fs s))))),
      snd (deleteEach cl fs s))
   \<and> length (fst (deleteEach cl fs s)) = length fs
   \<and> calls (snd (Clean cl fs s)) = calls s @ map (\<lambda>f. DeleteCall (name f) True) fs
   \<and> (fst (Clean cl fs s) = None \<longleftrightarrow> (\<forall>r\<in>set (fst (deleteEach cl fs s)). r = None))"
  by (simp add: Clean_def cleanLoop_deleteEach deleteEach_length deleteEach_calls failures_of_Nil)

theorem Clean_attempts_every_deletion_and_aggregates_witness:
  "Clean cl0 [users, locked, orders] s0 =
     (Some (CleaningUp (Joined [DeletingIndex ''locked'' (LibError ''connection refused'')])),
      \<lparr>calls = [DeleteCall ''users'' True, DeleteCall ''locked'' True, DeleteCall ''orders'' True],
       world = []\<rparr>)
   \<and> \<not> (\<forall>r\<in>set (fst (deleteEach cl0 [users, locked, orders] s0)). r = None)"
  using Clean_attempts_every_deletion_and_aggregates[of cl0 "[users, locked, orders]" s0]
  by (simp add: example_defs operation_defs failures_of_def)

section \<open>Index creation\<close>

lemma request_object_built:
  "(case t of Some v \<Rightarrow> (case m of Some u \<Rightarrow> Map.empty(''mappings'' \<mapsto> u) | None \<Rightarrow> Map.empty)(''settings'' \<mapsto> v)
            | None \<Rightarrow> (case m of Some u \<Rightarrow> Map.empty(''mappings'' \<mapsto> u) | None \<Rightarrow> Map.empty))
     = request_object m t"
  by (rule ext) (simp add: request_object_def split: option.splits)

lemma buildCreateIndexBody_object:
  "buildCreateIndexBody x m t =
     (if m = None \<and> t = None then Inr None
      else (case json_Marshal_raw x (request_object m t) of
              Inl err \<Rightarrow> Inl (LibError err)
            | Inr bytes \<Rightarrow> Inr (Some bytes)))"
  by (simp add: buildCreateIndexBody_def Let_def request_object_built)

lemma dom_request_object:
  "dom (request_object m t) =
     (if m = None then {} else {''mappings''}) \<union> (if t = None then {} else {''settings''})"
  by (auto simp: request_object_def dom_def split: if_splits)

text \<open>
  Claim C5. With neither schema nor settings, \<open>buildCreateIndexBody\<close> returns no body
  and the creation request is issued without one. With at least one of them, the body is the
  serialisation of the object that holds the schema under \<open>mappings\<close> and the
  settings under \<open>settings\<close>, each exactly when present, and no other key; the one
  request \<open>createIndex\<close> issues carries that body. Where the serialisation fails, no
  request is issued.
\<close>

theorem createIndex_request_body:
  "buildCreateIndexBody x m t =
     (if m = None \<and> t = None then Inr None
      else (case json_Marshal_raw x (request_object m t) of
              Inl err \<Rightarrow> Inl (LibError err)
            | Inr bytes \<Rightarrow> Inr (Some bytes)))
   \<and> dom (request_object m t) =
       (if m = None then {} else {''mappings''}) \<union> (if t = None then {} else {''settings''})
   \<and> request_object m t ''mappings'' = m \<and> request_object m t ''settings'' = t
   \<and> (case buildCreateIndexBody x m t of
         Inl e \<Rightarrow> createIndex x cl n m t s = (Some (BuildingRequestBody e), s)
       | Inr body \<Rightarrow> calls (snd (createIndex x cl n m t s)) = calls s @ [CreateCall n body])"
proof -
  have "case buildCreateIndexBody x m t of
         Inl e \<Rightarrow> createIndex x cl n m t s = (Some (BuildingRequestBody e), s)
       | Inr body \<Rightarrow> calls (snd (createIndex x cl n m t s)) = calls s @ [CreateCall n body]"
    by (auto simp: createIndex_def issue_def split: prod.splits sum.splits option.splits)
  then show ?thesis
    using buildCreateIndexBody_object[of x m t] dom_request_object[of m t]
    by (simp add: request_object_def)
qed

theorem createIndex_request_body_witness:
  "calls (snd (createIndex x0 cl0 ''users'' (Some ''{m}'') (Some ''{s}'') s0)) =
     [CreateCall ''users'' (Some ''{mappings:{m},settings:{s}}'')]
   \<and> calls (snd (createIndex x0 cl0 ''products'' (Some ''{m}'') None s0)) =
     [CreateCall ''products'' (Some ''{mappings:{m}}'')]
   \<and> calls (snd (createIndex x0 cl0 ''orders'' None None s0)) = [CreateCall ''orders'' None]
   \<and> dom (request_object (Some ''{m}'') None) = {''mappings''}"
  using createIndex_request_body[of x0 "Some ''{m}''" "Some ''{s}''" cl0 "''users''" s0]
    createIndex_request_body[of x0 "Some ''{m}''" None cl0 "''products''" s0]
    createIndex_request_body[of x0 None None cl0 "''orders''" s0]
  by (simp add: x0_def s0_def request_object_def buildCreateIndexBody_def dom_def)

section \<open>Batched write\<close>

lemma added_items_append: "added_items (cs @ ds) = added_items cs @ added_items ds"
  by (induction cs rule: added_items.induct) auto

lemma addDocuments_items:
  "addDocuments x cl n docs acc s = (r, s') \<Longrightarrow>
     \<exists>new k. calls s' = calls s @ new \<and> k \<le> length docs
       \<and> added_items new = map (\<lambda>d. bulkItem d (marshalled x d)) (take k docs)
       \<and> (\<forall>errs. r = Inr errs \<longrightarrow> k = length docs)"
proof (induction docs arbitrary: acc s)
  case Nil
  then show ?case by auto
next
  case (Cons doc docs)
  show ?case
  proof (cases "json_Marshal_body x (Body doc)")
    case (Inl e)
    with Cons.prems have "s' = s" "\<forall>errs. r \<noteq> Inr errs" by auto
    then show ?thesis by (intro exI[of _ "[]"] exI[of _ 0]) simp
  next
    case (Inr body)
    then have mb: "marshalled x doc = body" by (simp add: marshalled_def)
    obtain fails err w where a: "Indexer_Add cl n (bulkItem doc body) (world s) = ((fails, err), w)"
      by (metis surj_pair)
    show ?thesis
    proof (cases err)
      case (Some e)
      with Cons.prems Inr a have "calls s' = calls s @ [AddCall n (bulkItem doc body)]"
        "\<forall>errs. r \<noteq> Inr errs" by (auto simp: issue_def)
      then show ?thesis
        by (intro exI[of _ "[AddCall n (bulkItem doc body)]"] exI[of _ 1]) (simp add: mb)
    next
      case None
      with Cons.prems Inr a
      have "addDocuments x cl n docs (acc @ map failureMessage fails)
              (issue (AddCall n (bulkItem doc body)) w s) = (r, s')" by simp
      from Cons.IH[OF this] obtain new k where
        n: "calls s' = calls (issue (AddCall n (bulkItem doc body)) w s) @ new"
           "k \<le> length docs"
           "added_items new = map (\<lambda>d. bulkItem d (marshalled x d)) (take k docs)"
           "\<forall>errs. r = Inr errs \<longrightarrow> k = length docs" by blast
      show ?thesis
        by (intro exI[of _ "AddCall n (bulkItem doc body) # new"] exI[of _ "Suc k"])
           (use n in \<open>simp add: issue_def mb\<close>)
    qed
  qed
qed

lemma bulkItem_fields:
  "Action (bulkItem d body) = ''index'' \<and> ItemBody (bulkItem d body) = body
   \<and> DocumentID (bulkItem d body) = ID d"
  by (simp add: bulkItem_def Let_def)

text \<open>
  Claim C3. The items handed to the indexer are, in order, the items of the documents, as
  far as the loop got (all of them when the phase succeeds); the item of a document has the
  action \<open>index\<close> and the marshalled body, and carries a document identifier if and
  only if the identifier of the document is not empty, in which case it is that identifier.
\<close>

theorem bulkInsertDocuments_items:
  assumes "bulkInsertDocuments x cl n docs s = (r, s')"
  shows "\<exists>new k. calls s' = calls s @ new \<and> k \<le> length docs
       \<and> added_items new = map (\<lambda>d. bulkItem d (marshalled x d)) (take k docs)
       \<and> (r = None \<longrightarrow> k = length docs)
       \<and> (\<forall>d body. Action (bulkItem d body) = ''index''
             \<and> ItemBody (bulkItem d body) = body
             \<and> (DocumentID (bulkItem d body) \<noteq> [] \<longleftrightarrow> ID d \<noteq> [])
             \<and> (ID d \<noteq> [] \<longrightarrow> DocumentID (bulkItem d body) = ID d))"
proof -
  have fields: "\<forall>d body. Action (bulkItem d body) = ''index''
             \<and> ItemBody (bulkItem d body) = body
             \<and> (DocumentID (bulkItem d body) \<noteq> [] \<longleftrightarrow> ID d \<noteq> [])
             \<and> (ID d \<noteq> [] \<longrightarrow> DocumentID (bulkItem d body) = ID d)"
    by (simp add: bulkItem_fields)
  have "\<exists>new k. calls s' = calls s @ new \<and> k \<le> length docs
       \<and> added_items new = map (\<lambda>d. bulkItem d (marshalled x d)) (take k docs)
       \<and> (r = None \<longrightarrow> k = length docs)"
  proof (cases "docs = []")
    case True
    with assms show ?thesis by (simp add: bulkInsertDocuments_def)
  next
    case False
    obtain ne w where nb: "NewBulkIndexer cl n (world s) = (ne, w)" by (metis surj_pair)
    show ?thesis
    proof (cases ne)
      case (Some e)
      with assms False nb have "calls s' = calls s @ [NewIndexerCall n]" "r \<noteq> None"
        by (auto simp: bulkInsertDocuments_def issue_def)
      then show ?thesis by (intro exI[of _ "[NewIndexerCall n]"] exI[of _ 0]) auto
    next
      case None
      obtain ar s1 where ad: "addDocuments x cl n docs [] (issue (NewIndexerCall n) w s) = (ar, s1)"
        by (metis surj_pair)
      from addDocuments_items[OF ad] obtain new1 k where
        n1: "calls s1 = calls s @ NewIndexerCall n # new1" "k \<le> length docs"
            "added_items new1 = map (\<lambda>d. bulkItem d (marshalled x d)) (take k docs)"
            "\<forall>errs. ar = Inr errs \<longrightarrow> k = length docs"
        by (auto simp: issue_def)
      show ?thesis
      proof (cases ar)
        case (Inl e)
        with assms False nb None ad have "s' = s1" "r \<noteq> None"
          by (auto simp: bulkInsertDocuments_def)
        then show ?thesis using n1
          by (intro exI[of _ "NewIndexerCall n # new1"] exI[of _ k]) auto
      next
        case (Inr added)
        with assms False nb None ad
        have "\<exists>rest. calls s' = calls s1 @ rest \<and> added_items rest = []"
          by (auto simp: bulkInsertDocuments_def issue_def Let_def
                   split: prod.splits option.splits if_splits)
        then obtain rest where rest: "calls s' = calls s1 @ rest" "added_items rest = []" by blast
        from n1 Inr have "k = length docs" by simp
        with rest n1 show ?thesis
          by (intro exI[of _ "NewIndexerCall n # new1 @ rest"] exI[of _ k])
             (simp add: added_items_append)
      qed
    qed
  qed
  with fields show ?thesis by blast
qed

theorem bulkInsertDocuments_items_witness:
  "bulkInsertDocuments x0 cl0 ''users'' [alice, anonymous] s0 =
     (None,
      \<lparr>calls = [NewIndexerCall ''users'',
                AddCall ''users'' \<lparr>Action = ''index'', DocumentID = ''1'', ItemBody = ''name=Alice''\<rparr>,
                AddCall ''users'' \<lparr>Action = ''index'', DocumentID = [], ItemBody = ''name=Bob''\<rparr>,
                CloseCall ''users'', StatsCall ''users''],
       world = []\<rparr>)
   \<and> (\<exists>new k. [NewIndexerCall ''users'',
                AddCall ''users'' \<lparr>Action = ''index'', DocumentID = ''1'', ItemBody = ''name=Alice''\<rparr>,
                AddCall ''users'' \<lparr>Action = ''index'', DocumentID = [], ItemBody = ''name=Bob''\<rparr>,
                CloseCall ''users'', StatsCall ''users''] = calls s0 @ new
          \<and> added_items new = map (\<lambda>d. bulkItem d (marshalled x0 d)) (take k [alice, anonymous])
          \<and> k = 2)"
proof -
  have h: "bulkInsertDocuments x0 cl0 ''users'' [alice, anonymous] s0 =
     (None,
      \<lparr>calls = [NewIndexerCall ''users'',
                AddCall ''users'' \<lparr>Action = ''index'', DocumentID = ''1'', ItemBody = ''name=Alice''\<rparr>,
                AddCall ''users'' \<lparr>Action = ''index'', DocumentID = [], ItemBody = ''name=Bob''\<rparr>,
                CloseCall ''users'', StatsCall ''users''],
       world = []\<rparr>)"
    by (simp add: x0_def cl0_def s0_def alice_def anonymous_def bulkItem_def
          bulkInsertDocuments_def issue_def)
  from bulkInsertDocuments_items[OF h] show ?thesis
    using h by auto
qed






section \<open>Records\<close>

lemmas parser_defs =
  parseIndexDir_def optionalFile_def readJSONFile_def os_ReadFile_def os_ReadDir_def
  mappingFile_def settingsFile_def parseDocumentFiles_def parseYAMLDocuments_def
  HasSuffix_def HasPrefix_def toDocument_def

lemmas tree_defs = tree_def users_dir_def products_dir_def broken_tree_def x0_def yaml_examples_def


text \<open>
  Claim C6. For a decoded record that contains the key \<open>_id\<close>, the document has the
  string form of its value as identifier, whatever the value is, and the record without that
  key as body; for a record without the key, the identifier is empty and the body is the
  record unchanged. In both cases the body does not contain \<open>_id\<close>. The documents of
  a file are the documents of its decoded records, in order.
\<close>

theorem toDocument_identity:
  "(\<forall>v. raw ''_id'' = Some v \<longrightarrow>
        ID (toDocument x raw) = Sprintf_v x v
      \<and> Body (toDocument x raw) = raw(''_id'' := None)
      \<and> (\<forall>k. k \<noteq> ''_id'' \<longrightarrow> Body (toDocument x raw) k = raw k))
   \<and> (raw ''_id'' = None \<longrightarrow> ID (toDocument x raw) = [] \<and> Body (toDocument x raw) = raw)
   \<and> ''_id'' \<notin> dom (Body (toDocument x raw))
   \<and> (\<forall>data rawDocs. os_ReadFile path nd = Inr data \<longrightarrow> yaml_Unmarshal x data = Inr rawDocs \<longrightarrow>
         parseYAMLDocuments x path nd = Inr (map (toDocument x) rawDocs))"
  by (auto simp: toDocument_def parseYAMLDocuments_def split: option.splits)


theorem toDocument_identity_witness:
  "parseYAMLDocuments x0 ''fixtures/users/documents.yml'' (Some (File ''users'')) =
     Inr [\<lparr>ID = ''1'', Body = [''name'' \<mapsto> Str ''Alice'']\<rparr>,
          \<lparr>ID = ''2'', Body = [''name'' \<mapsto> Str ''Bob'']\<rparr>]
   \<and> toDocument x0 [''title'' \<mapsto> Str ''Radio''] = \<lparr>ID = [], Body = [''title'' \<mapsto> Str ''Radio'']\<rparr>"
proof -
  have r: "os_ReadFile ''fixtures/users/documents.yml'' (Some (File ''users'')) = Inr ''users''"
    by (simp add: os_ReadFile_def)
  have u: "yaml_Unmarshal x0 ''users'' =
      Inr [[''_id'' \<mapsto> Num 1, ''name'' \<mapsto> Str ''Alice''],
           [''_id'' \<mapsto> Str ''2'', ''name'' \<mapsto> Str ''Bob'']]"
    by (simp add: x0_def yaml_examples_def)
  have a: "[''_id'' \<mapsto> Num 1, ''name'' \<mapsto> Str ''Alice''] ''_id'' = Some (Num 1)" by simp
  have b: "[''_id'' \<mapsto> Str ''2'', ''name'' \<mapsto> Str ''Bob''] ''_id'' = Some (Str ''2'')" by simp
  have c: "[''title'' \<mapsto> Str ''Radio''] ''_id'' = None" by simp
  have e1: "([''_id'' \<mapsto> Num 1, ''name'' \<mapsto> Str ''Alice''])(''_id'' := None) = [''name'' \<mapsto> Str ''Alice'']"
    by (rule ext) simp
  have e2: "([''_id'' \<mapsto> Str ''2'', ''name'' \<mapsto> Str ''Bob''])(''_id'' := None) = [''name'' \<mapsto> Str ''Bob'']"
    by (rule ext) simp
  have s: "Sprintf_v x0 (Num 1) = ''1''" "Sprintf_v x0 (Str ''2'') = ''2''"
    by (simp_all add: x0_def Itoa_def digit_def)
  note t = toDocument_identity[where x = x0 and path = "''fixtures/users/documents.yml''"
             and nd = "Some (File ''users'')"]
  from t[of "[''_id'' \<mapsto> Num 1, ''name'' \<mapsto> Str ''Alice'']"] a e1 s
  have d1: "toDocument x0 [''_id'' \<mapsto> Num 1, ''name'' \<mapsto> Str ''Alice'']
              = \<lparr>ID = ''1'', Body = [''name'' \<mapsto> Str ''Alice'']\<rparr>"
    by (intro document.equality) simp_all
  from t[of "[''_id'' \<mapsto> Str ''2'', ''name'' \<mapsto> Str ''Bob'']"] b e2 s
  have d2: "toDocument x0 [''_id'' \<mapsto> Str ''2'', ''name'' \<mapsto> Str ''Bob'']
              = \<lparr>ID = ''2'', Body = [''name'' \<mapsto> Str ''Bob'']\<rparr>"
    by (intro document.equality) simp_all
  from t[of "[''title'' \<mapsto> Str ''Radio'']"] c
  have d3: "toDocument x0 [''title'' \<mapsto> Str ''Radio''] = \<lparr>ID = [], Body = [''title'' \<mapsto> Str ''Radio'']\<rparr>"
    by (intro document.equality) simp_all
  from t[of "[''title'' \<mapsto> Str ''Radio'']"] r u
  have "parseYAMLDocuments x0 ''fixtures/users/documents.yml'' (Some (File ''users'')) =
     Inr (map (toDocument x0) [[''_id'' \<mapsto> Num 1, ''name'' \<mapsto> Str ''Alice''],
           [''_id'' \<mapsto> Str ''2'', ''name'' \<mapsto> Str ''Bob'']])" by blast
  with d1 d2 d3 show ?thesis by simp
qed

lemma documentLoop_skip:
  "\<not> is_record_source e \<Longrightarrow> documentLoop x dir (e # entries) docs = documentLoop x dir entries docs"
  by (cases e) (auto simp: is_record_source_def)

lemma documentLoop_source:
  "is_record_source e \<Longrightarrow>
     documentLoop x dir (e # entries) docs =
       (case parseYAMLDocuments x (filepath_Join x dir (fst e)) (Some (snd e)) of
          Inl err \<Rightarrow> Inl (ParsingDocumentFile (fst e) err)
        | Inr fileDocs \<Rightarrow> documentLoop x dir entries (docs @ fileDocs))"
  by (cases e) (auto simp: is_record_source_def split: sum.splits)

lemma documentLoop_all_parse:
  "\<forall>e\<in>set (filter is_record_source entries). parses x dir e \<Longrightarrow>
     documentLoop x dir entries docs =
       Inr (docs @ concat (map (records_of x dir) (filter is_record_source entries)))"
proof (induction entries arbitrary: docs)
  case Nil
  show ?case by simp
next
  case (Cons e entries)
  show ?case
  proof (cases "is_record_source e")
    case False
    with Cons show ?thesis by (simp add: documentLoop_skip)
  next
    case True
    with Cons.prems have "parses x dir e" by simp
    then obtain fileDocs where
      p: "parseYAMLDocuments x (filepath_Join x dir (fst e)) (Some (snd e)) = Inr fileDocs"
      by (auto simp: parses_def split: sum.splits)
    then have r: "records_of x dir e = fileDocs" by (simp add: records_of_def)
    from Cons.prems True have "\<forall>e\<in>set (filter is_record_source entries). parses x dir e" by simp
    from Cons.IH[OF this, of "docs @ fileDocs"] True p r show ?thesis
      by (simp add: documentLoop_source)
  qed
qed

lemma documentLoop_first_failure:
  "\<not> (\<forall>e\<in>set (filter is_record_source entries). parses x dir e) \<Longrightarrow>
     \<exists>pre e post err. filter is_record_source entries = pre @ e # post
        \<and> (\<forall>p\<in>set pre. parses x dir p)
        \<and> parseYAMLDocuments x (filepath_Join x dir (fst e)) (Some (snd e)) = Inl err
        \<and> documentLoop x dir entries docs = Inl (ParsingDocumentFile (fst e) err)"
proof (induction entries arbitrary: docs)
  case Nil
  then show ?case by simp
next
  case (Cons e entries)
  show ?case
  proof (cases "is_record_source e")
    case False
    with Cons show ?thesis by (simp add: documentLoop_skip)
  next
    case True
    show ?thesis
    proof (cases "parseYAMLDocuments x (filepath_Join x dir (fst e)) (Some (snd e))")
      case (Inl err)
      with True show ?thesis
        by (intro exI[of _ "[]"] exI[of _ e] exI[of _ "filter is_record_source entries"] exI[of _ err])
           (simp add: documentLoop_source)
    next
      case (Inr fileDocs)
      then have pe: "parses x dir e" by (simp add: parses_def)
      with Cons.prems True
      have "\<not> (\<forall>e\<in>set (filter is_record_source entries). parses x dir e)" by simp
      from Cons.IH[OF this, of "docs @ fileDocs"] obtain pre f post err where
        f: "filter is_record_source entries = pre @ f # post" "\<forall>p\<in>set pre. parses x dir p"
           "parseYAMLDocuments x (filepath_Join x dir (fst f)) (Some (snd f)) = Inl err"
           "documentLoop x dir entries (docs @ fileDocs) = Inl (ParsingDocumentFile (fst f) err)"
        by blast
      with True Inr pe show ?thesis
        by (intro exI[of _ "e # pre"] exI[of _ f] exI[of _ post] exI[of _ err])
           (simp add: documentLoop_source)
    qed
  qed
qed

lemma is_record_source_iff:
  "is_record_source (nm, nd) \<longleftrightarrow>
     (\<exists>data. nd = File data) \<and> (HasSuffix nm ''.yml'' \<or> HasSuffix nm ''.yaml'') \<and> \<not> HasPrefix nm ''_''"
  by (cases nd) (auto simp: is_record_source_def)

lemma records_of_file:
  "yaml_Unmarshal x data = Inr rawDocs \<Longrightarrow>
     records_of x dir (nm, File data) = map (toDocument x) rawDocs"
  by (simp add: records_of_def parseYAMLDocuments_def os_ReadFile_def)

section \<open>Record sources of a collection\<close>

text \<open>
  Claim C8. The record sources of a collection directory are exactly its entries that are
  files whose name ends in \<open>.yml\<close> or \<open>.yaml\<close> and does not start with
  \<open>_\<close>; directories inside it are not entered. When the directory parses, the
  records of the collection are the records of the record sources concatenated in the order
  \<open>os.ReadDir\<close> lists them, those of one file in the order of the file; it parses
  when every record source does.
\<close>

theorem parseDocumentFiles_concatenates_record_sources:
  "(\<forall>docs. parseDocumentFiles x dir (Dir es) = Inr docs \<longrightarrow>
        docs = concat (map (records_of x dir) (filter is_record_source (sort_key fst es)))
      \<and> (\<forall>e\<in>set (filter is_record_source (sort_key fst es)). parses x dir e))
   \<and> ((\<forall>e\<in>set (filter is_record_source (sort_key fst es)). parses x dir e) \<longrightarrow>
        parseDocumentFiles x dir (Dir es) =
          Inr (concat (map (records_of x dir) (filter is_record_source (sort_key fst es)))))
   \<and> (\<forall>nm nd. is_record_source (nm, nd) \<longleftrightarrow>
        (\<exists>data. nd = File data) \<and> (HasSuffix nm ''.yml'' \<or> HasSuffix nm ''.yaml'')
        \<and> \<not> HasPrefix nm ''_'')
   \<and> (\<forall>nm data rawDocs. yaml_Unmarshal x data = Inr rawDocs \<longrightarrow>
        records_of x dir (nm, File data) = map (toDocument x) rawDocs)"
proof -
  let ?src = "filter is_record_source (sort_key fst es)"
  have pd: "parseDocumentFiles x dir (Dir es) = documentLoop x dir (sort_key fst es) []"
    by (simp add: parseDocumentFiles_def os_ReadDir_def)
  have ok: "(\<forall>e\<in>set ?src. parses x dir e) \<longrightarrow>
        parseDocumentFiles x dir (Dir es) = Inr (concat (map (records_of x dir) ?src))"
    using documentLoop_all_parse[of "sort_key fst es" x dir "[]"] by (simp add: pd)
  have bad: "\<not> (\<forall>e\<in>set ?src. parses x dir e) \<longrightarrow>
        (\<exists>err. parseDocumentFiles x dir (Dir es) = Inl err)"
    using documentLoop_first_failure[of "sort_key fst es" x dir "[]"] unfolding pd by blast
  have succ: "\<forall>docs. parseDocumentFiles x dir (Dir es) = Inr docs \<longrightarrow>
        docs = concat (map (records_of x dir) ?src) \<and> (\<forall>e\<in>set ?src. parses x dir e)"
  proof (intro allI impI)
    fix docs assume eq: "parseDocumentFiles x dir (Dir es) = Inr docs"
    have all: "\<forall>e\<in>set ?src. parses x dir e"
    proof (rule ccontr)
      assume "\<not> (\<forall>e\<in>set ?src. parses x dir e)"
      with bad obtain err where "parseDocumentFiles x dir (Dir es) = Inl err" by blast
      with eq show False by simp
    qed
    with ok eq have "docs = concat (map (records_of x dir) ?src)" by simp
    with all show "docs = concat (map (records_of x dir) ?src) \<and> (\<forall>e\<in>set ?src. parses x dir e)"
      by simp
  qed
  have iff: "\<forall>nm nd. is_record_source (nm, nd) \<longleftrightarrow>
        (\<exists>data. nd = File data) \<and> (HasSuffix nm ''.yml'' \<or> HasSuffix nm ''.yaml'')
        \<and> \<not> HasPrefix nm ''_''"
    by (simp add: is_record_source_iff)
  have recs: "\<forall>nm data rawDocs. yaml_Unmarshal x data = Inr rawDocs \<longrightarrow>
        records_of x dir (nm, File data) = map (toDocument x) rawDocs"
    by (simp add: records_of_file)
  show ?thesis
    by (rule conjI[OF succ conjI[OF ok conjI[OF iff recs]]])
qed



lemma products_sources:
  "filter is_record_source (sort_key fst
      [(''notes.txt'', File ''books''), (''002_books.yaml'', File ''books''),
       (''_hidden.yml'', File ''books''), (''archive.yml'', Dir [(''old.yml'', File ''books'')]),
       (''001_electronics.yml'', File ''electronics''), (''_mapping.json'', File ''{m}'')])
     = [(''001_electronics.yml'', File ''electronics''), (''002_books.yaml'', File ''books'')]"
  by (simp add: is_record_source_def HasSuffix_def HasPrefix_def)

theorem parseDocumentFiles_concatenates_record_sources_witness:
  "filter is_record_source (sort_key fst
      [(''notes.txt'', File ''books''), (''002_books.yaml'', File ''books''),
       (''_hidden.yml'', File ''books''), (''archive.yml'', Dir [(''old.yml'', File ''books'')]),
       (''001_electronics.yml'', File ''electronics''), (''_mapping.json'', File ''{m}'')])
     = [(''001_electronics.yml'', File ''electronics''), (''002_books.yaml'', File ''books'')]
   \<and> (\<exists>docs. parseDocumentFiles x0 ''fixtures/products'' products_dir = Inr docs
         \<and> map ID docs = [''p1'', [], ''p3''])"
proof -
  note t = parseDocumentFiles_concatenates_record_sources[of x0 "''fixtures/products''"
      "[(''notes.txt'', File ''books''), (''002_books.yaml'', File ''books''),
       (''_hidden.yml'', File ''books''), (''archive.yml'', Dir [(''old.yml'', File ''books'')]),
       (''001_electronics.yml'', File ''electronics''), (''_mapping.json'', File ''{m}'')]"]
  have ok: "\<forall>e\<in>set [(''001_electronics.yml'', File ''electronics''), (''002_books.yaml'', File ''books'')].
      parses x0 ''fixtures/products'' e"
    by (simp add: parses_def parser_defs tree_defs)
  note t2 = t[THEN conjunct2, THEN conjunct1, THEN mp, unfolded products_sources,
                folded products_dir_def]
  from t2[OF ok] have p: "parseDocumentFiles x0 ''fixtures/products'' products_dir =
      Inr (concat (map (records_of x0 ''fixtures/products'')
        [(''001_electronics.yml'', File ''electronics''), (''002_books.yaml'', File ''books'')]))" .
  have "map ID (concat (map (records_of x0 ''fixtures/products'')
        [(''001_electronics.yml'', File ''electronics''), (''002_books.yaml'', File ''books'')]))
      = [''p1'', [], ''p3'']"
    by (simp add: records_of_def parser_defs tree_defs)
  with p products_sources show ?thesis
    by (intro conjI exI[of _ "concat (map (records_of x0 ''fixtures/products'')
        [(''001_electronics.yml'', File ''electronics''), (''002_books.yaml'', File ''books'')])"]) simp_all
qed

section \<open>Fixtures of a directory tree\<close>














section \<open>Malformed record sources, order\<close>



lemma subdirs_IsDir: "d \<in> set (subdirs es) \<Longrightarrow> \<exists>des. snd d = Dir des"
  by (cases "snd d") (auto simp: subdirs_def)










end
